theory Spec2Isabelle
  imports Main
begin

section \<open>Strings\<close>

text \<open>
  The chat widget exists in four versions: \<^verbatim>\<open>src/components/ChatInterface.tsx\<close>, the two
  components stored in \<^verbatim>\<open>part_000\<close> and the component stored in \<^verbatim>\<open>part_001\<close>.
  Text is a list of bytes, the UTF-8 spelling of the string. \<^verbatim>\<open>String.prototype.toLowerCase\<close>,
  \<^verbatim>\<open>trim\<close> and \<^verbatim>\<open>includes\<close> are library functions of the language, embedded here on the
  ASCII range: the letters \<open>A\<close> to \<open>Z\<close> are the only bytes that lower-casing changes, and
  the blank bytes are tab, line feed, vertical tab, form feed, carriage return and space.
  Every keyword of the classifier is ASCII. On text whose bytes are all below 128 the
  embedded functions are the language's. Beyond it they are not: the language lower-cases
  the Kelvin sign (U+212A) to \<open>k\<close> and trims the no-break space (U+00A0), the byte order
  mark and the other Unicode blanks, and \<open>toLowerCase\<close> and \<open>trim\<close> below leave those
  bytes alone. A theorem that draws a conclusion from what these two functions do not
  find in a text is therefore stated for ASCII text.
\<close>

definition toLowerCase_unit :: "char \<Rightarrow> char" where
  "toLowerCase_unit c =
     (if 65 \<le> (of_char c :: nat) \<and> (of_char c :: nat) \<le> 90
      then char_of ((of_char c :: nat) + 32) else c)"

definition toLowerCase :: "string \<Rightarrow> string" where
  "toLowerCase s = map toLowerCase_unit s"

fun startsWith :: "string \<Rightarrow> string \<Rightarrow> bool" where
  "startsWith s [] = True"
| "startsWith [] (c # t) = False"
| "startsWith (a # s) (c # t) = (a = c \<and> startsWith s t)"

text \<open>\<^verbatim>\<open>s.includes(t)\<close>: \<open>t\<close> occurs in \<open>s\<close> as a contiguous run.\<close>

fun str_includes :: "string \<Rightarrow> string \<Rightarrow> bool" where
  "str_includes [] t = (t = [])"
| "str_includes (a # s) t = (startsWith (a # s) t \<or> str_includes s t)"

definition isWhiteSpace :: "char \<Rightarrow> bool" where
  "isWhiteSpace c = ((9 \<le> (of_char c :: nat) \<and> (of_char c :: nat) \<le> 13) \<or> (of_char c :: nat) = 32)"

definition trim :: "string \<Rightarrow> string" where
  "trim s = rev (dropWhile isWhiteSpace (rev (dropWhile isWhiteSpace s)))"

text \<open>\<^verbatim>\<open>xs.join(sep)\<close> on an array of strings.\<close>

fun join :: "string \<Rightarrow> string list \<Rightarrow> string" where
  "join sep [] = []"
| "join sep [x] = x"
| "join sep (x # y # ys) = x @ sep @ join sep (y # ys)"

section \<open>Workflow suggestions and the intent classifier\<close>

record workflowSuggestion =
  trigger :: string
  action :: string
  frequency :: string
  tools :: "string list"
  missingInfo :: "string list option"
  prefilled :: "bool option"

text \<open>
  \<^verbatim>\<open>analyzeUserIntent\<close> as it stands in \<^verbatim>\<open>ChatInterface.tsx\<close>, in the first component of
  \<^verbatim>\<open>part_000\<close> and in \<^verbatim>\<open>part_001\<close> (the three texts are the same). \<open>None\<close> is \<^verbatim>\<open>null\<close>.
\<close>

definition analyzeUserIntent :: "string \<Rightarrow> workflowSuggestion option" where
  \<open>analyzeUserIntent message =
     (let lowerMessage = toLowerCase message in
      if str_includes lowerMessage ''slack'' \<and>
         (str_includes lowerMessage ''every'' \<or> str_includes lowerMessage ''daily''
          \<or> str_includes lowerMessage ''morning'')
      then Some \<lparr>trigger = ''Time-based'', action = ''Send Slack message'',
                  frequency = ''Daily at 9:00 AM'', tools = [''Slack''],
                  missingInfo = Some [''Which Slack channel?'', ''What message content?''],
                  prefilled = None\<rparr>
      else if str_includes lowerMessage ''email'' \<and> str_includes lowerMessage ''whatsapp''
      then Some \<lparr>trigger = ''Email received'', action = ''Send WhatsApp notification'',
                  frequency = ''Every time'', tools = [''Gmail'', ''WhatsApp''],
                  missingInfo = Some [''Define "important email" criteria''],
                  prefilled = None\<rparr>
      else if str_includes lowerMessage ''remind'' \<or> str_includes lowerMessage ''reminder''
      then Some \<lparr>trigger = ''Time-based'', action = ''Send reminder'',
                  frequency = ''Custom'', tools = [''Calendar'', ''Notifications''],
                  missingInfo = Some [''When should I remind you?'', ''What reminder message?''],
                  prefilled = None\<rparr>
      else if str_includes lowerMessage ''when'' \<or> str_includes lowerMessage ''if''
      then Some \<lparr>trigger = ''Event-based'', action = ''Execute action'',
                  frequency = ''When condition is met'', tools = [''To be determined''],
                  missingInfo = Some [''What specific condition?'', ''What action to take?''],
                  prefilled = None\<rparr>
      else None)\<close>

text \<open>
  \<^verbatim>\<open>analyzeUserIntent\<close> of the second component of \<^verbatim>\<open>part_000\<close> (the one whose card is
  titled "Workflow Preview"): the same four rules, other trigger and frequency texts.
\<close>

definition analyzeUserIntent_preview :: "string \<Rightarrow> workflowSuggestion option" where
  \<open>analyzeUserIntent_preview message =
     (let lowerMessage = toLowerCase message in
      if str_includes lowerMessage ''slack'' \<and>
         (str_includes lowerMessage ''every'' \<or> str_includes lowerMessage ''daily''
          \<or> str_includes lowerMessage ''morning'')
      then Some \<lparr>trigger = ''Schedule'', action = ''Send Slack message'',
                  frequency = ''Daily at 9:00 AM'', tools = [''Slack''],
                  missingInfo = Some [''Which Slack channel?'', ''What message content?''],
                  prefilled = None\<rparr>
      else if str_includes lowerMessage ''email'' \<and> str_includes lowerMessage ''whatsapp''
      then Some \<lparr>trigger = ''New important email received'',
                  action = ''Send WhatsApp notification'',
                  frequency = ''Every time'', tools = [''Gmail'', ''WhatsApp''],
                  missingInfo = Some [''Define "important email" criteria''],
                  prefilled = None\<rparr>
      else if str_includes lowerMessage ''remind'' \<or> str_includes lowerMessage ''reminder''
      then Some \<lparr>trigger = ''Schedule'', action = ''Send reminder'',
                  frequency = ''As specified'', tools = [''Calendar'', ''Notifications''],
                  missingInfo = Some [''When should I remind you?'', ''What reminder message?''],
                  prefilled = None\<rparr>
      else if str_includes lowerMessage ''when'' \<or> str_includes lowerMessage ''if''
      then Some \<lparr>trigger = ''Custom condition'', action = ''Execute action'',
                  frequency = ''When condition is met'', tools = [''To be determined''],
                  missingInfo = Some [''What specific condition?'', ''What action to take?''],
                  prefilled = None\<rparr>
      else None)\<close>

section \<open>Messages, staging statuses and the component state\<close>

datatype msg_type = UserMsg | BotMsg

text \<open>
  A chat message. \<open>msg_id\<close> is the number whose decimal spelling is the \<^verbatim>\<open>id\<close> string
  (\<^verbatim>\<open>Date.now().toString()\<close>), \<open>timestamp\<close> the clock reading behind \<^verbatim>\<open>new Date()\<close>.
\<close>

record message =
  msg_id :: nat
  msg_type :: msg_type
  content :: string
  timestamp :: nat
  workflowSuggestion :: "workflowSuggestion option"

datatype status = Pending | Loading | Completed

record stepStatuses =
  connect :: status
  permissions :: status
  test :: status

datatype component = ChatInterface | Part000a | Part000b | Part001

text \<open>
  Every \<^verbatim>\<open>setTimeout\<close> callback of the four components, as data. A callback that closes
  over a value carries it: the bot reply keeps the input that was sent, the continuation of
  \<^verbatim>\<open>handleConnectTool\<close> keeps the tool name (\<open>None\<close> is \<^verbatim>\<open>undefined\<close>) and, in
  \<^verbatim>\<open>part_001\<close>, the \<^verbatim>\<open>disconnectedToolsList\<close> of the render it was called in.
\<close>

datatype callback =
    BotReply string
  | ConnectToolSettled_000 "string option"
  | ConfigurePermissions_000
  | PermissionsConfigured_000
  | TestWorkflow_000
  | TestFinished_000
  | SuccessAlert_000
  | ConnectToolSettled_001 "string option" "string list"
  | SetupConnected_001
  | SetupPermissions_001
  | SetupPermissionsDone_001
  | SetupTest_001
  | SetupTestDone_001
  | SetupSuccess_001

text \<open>
  The state of the chat component together with the state of the workflow card that is on
  the page. \<open>messages\<close> to \<open>connectedTools\<close> are the \<^verbatim>\<open>useState\<close> values of
  \<^verbatim>\<open>ChatInterface\<close>; \<open>showSetupSteps\<close> to \<open>connectingTool\<close> are those of the mounted
  instance of \<^verbatim>\<open>WorkflowCard\<close>, and \<open>mounted\<close> numbers that instance.
  \<open>clock\<close> is the time in milliseconds (what \<^verbatim>\<open>Date.now()\<close> reads), \<open>alerts\<close> the texts
  shown by \<^verbatim>\<open>alert\<close>, \<open>timers\<close> the pending \<^verbatim>\<open>setTimeout\<close> callbacks in the order
  they were set, each with its due time and the number of the card instance whose handler
  set it (a callback of \<^verbatim>\<open>ChatInterface\<close> itself carries the number of the card mounted
  at the time and does not use it). The card's select boxes and text fields are left out:
  no handler of the sequencer writes them. A handler or a timer callback is one atomic
  step on this state.

  \<^verbatim>\<open>WorkflowCard\<close> is declared inside the body of \<^verbatim>\<open>ChatInterface\<close>, so every render
  of \<^verbatim>\<open>ChatInterface\<close> makes a new component type: the card on the page is unmounted and
  a new instance is mounted with the initial \<^verbatim>\<open>useState\<close> values. \<^verbatim>\<open>ChatInterface\<close>
  renders again whenever one of its own state values is replaced by a different one:
  \<^verbatim>\<open>setMessages\<close> and \<^verbatim>\<open>setConnectedTools\<close> always build a new array or object,
  \<^verbatim>\<open>setInput\<close>, \<^verbatim>\<open>setIsTyping\<close> and \<^verbatim>\<open>setShowDashboard\<close> do so when the value
  changes. A write of the card's own state renders the card only. The setters of an
  unmounted instance do nothing, while the timers its handlers set still fire and still
  reach \<^verbatim>\<open>ChatInterface\<close>'s setters and \<^verbatim>\<open>alert\<close>.
\<close>

record state =
  messages :: "message list"
  input :: string
  isTyping :: bool
  showDashboard :: bool
  connectedTools :: "string \<rightharpoonup> bool"
  mounted :: nat
  showSetupSteps :: bool
  currentStep :: nat
  stepStatuses :: stepStatuses
  isConnecting :: bool
  connectingTool :: "string option"
  alerts :: "string list"
  clock :: nat
  timers :: "(nat \<times> nat \<times> callback) list"

datatype outcome = Resolved | Rejected

subsection \<open>Message texts\<close>

definition party_popper :: string where
  "party_popper = [CHR 0xF0, CHR 0x9F, CHR 0x8E, CHR 0x89]"

definition link_symbol :: string where
  "link_symbol = [CHR 0xF0, CHR 0x9F, CHR 0x94, CHR 0x97]"

definition rocket :: string where
  "rocket = [CHR 0xF0, CHR 0x9F, CHR 0x9A, CHR 0x80]"

definition pencil :: string where
  "pencil = [CHR 0xE2, CHR 0x9C, CHR 0x8F, CHR 0xEF, CHR 0xB8, CHR 0x8F]"

definition greeting :: "component \<Rightarrow> string" where
  \<open>greeting c =
     (if c = Part000a \<or> c = Part001
      then ''Hi! I'm your TryCentral AI assistant. I can help you automate tasks across your favorite tools. Try one of these common workflows or tell me what you'd like to automate:''
      else ''Hi! I'm your TryCentral AI assistant. Tell me what task you'd like to automate and I'll help you set it up. For example: 'Send me a Slack message every morning at 9am' or 'When I get an important email, notify me on WhatsApp'' @ [CHR 0x27])\<close>

definition understood :: "component \<Rightarrow> string \<Rightarrow> string" where
  \<open>understood c inp =
     (if c = Part000a \<or> c = Part001
      then ''Perfect! I understand you want to automate: "'' @ inp @ ''". Let me set this up for you.''
      else ''I understand! You want to automate: "'' @ inp @ ''". Let me set this up for you.'')\<close>

definition clarification :: string where
  \<open>clarification = ''I'd love to help you automate that! Can you be more specific about when you want this to happen and what action should be taken? For example: "Every Monday at 10am" or "When I receive an email from my boss"''\<close>

definition activated_text :: string where
  \<open>activated_text = party_popper @ '' Workflow activated successfully! Your automation is now live and will run according to your schedule.''\<close>

subsection \<open>Small pieces of the language\<close>

text \<open>\<^verbatim>\<open>xs[0]\<close>: \<^verbatim>\<open>undefined\<close> on the empty array.\<close>

definition first :: "'a list \<Rightarrow> 'a option" where
  "first xs = (case xs of [] \<Rightarrow> None | x # _ \<Rightarrow> Some x)"

text \<open>\<^verbatim>\<open>a || b\<close> on strings that may be \<^verbatim>\<open>undefined\<close>: the empty string is falsy too.\<close>

definition js_or :: "string option \<Rightarrow> string option \<Rightarrow> string option" where
  "js_or a b = (case a of None \<Rightarrow> b | Some x \<Rightarrow> if x = [] then b else Some x)"

text \<open>A value used as a property key or inside a template literal.\<close>

definition to_text :: "string option \<Rightarrow> string" where
  "to_text a = (case a of None \<Rightarrow> ''undefined'' | Some x \<Rightarrow> x)"

text \<open>\<^verbatim>\<open>setTimeout(cb, delay)\<close> called by a handler of card instance \<open>g\<close>.\<close>

definition setTimeout :: "callback \<Rightarrow> nat \<Rightarrow> nat \<Rightarrow> state \<Rightarrow> state" where
  "setTimeout cb delay g s = s\<lparr>timers := timers s @ [(clock s + delay, g, cb)]\<rparr>"

subsection \<open>The chat\<close>

definition initialTools :: "string \<rightharpoonup> bool" where
  "initialTools = [''Slack'' \<mapsto> True, ''Gmail'' \<mapsto> False, ''WhatsApp'' \<mapsto> False,
                   ''Google Sheets'' \<mapsto> False, ''Calendar'' \<mapsto> False,
                   ''Notifications'' \<mapsto> False]"

definition initialStatuses :: stepStatuses where
  "initialStatuses = \<lparr>connect = Pending, permissions = Pending, test = Pending\<rparr>"

text \<open>
  The \<^verbatim>\<open>useState\<close> initial values, at page-load time \<open>t0\<close>. \<^verbatim>\<open>ChatInterface.tsx\<close> and
  the second component of \<^verbatim>\<open>part_000\<close> keep no tool-connection map.
\<close>

definition init_state :: "component \<Rightarrow> nat \<Rightarrow> state" where
  "init_state c t0 =
     \<lparr>messages = [\<lparr>msg_id = 1, msg_type = BotMsg, content = greeting c, timestamp = t0,
                    workflowSuggestion = None\<rparr>],
      input = [], isTyping = False, showDashboard = False,
      connectedTools = (if c = Part000a \<or> c = Part001 then initialTools else Map.empty),
      mounted = 0,
      showSetupSteps = False, currentStep = 1, stepStatuses = initialStatuses,
      isConnecting = False, connectingTool = Some [], alerts = [], clock = t0, timers = []\<rparr>"

text \<open>
  \<open>remount\<close> is what a render of \<^verbatim>\<open>ChatInterface\<close> does to the card: the next instance
  is mounted with the initial values of its state. \<open>on_card g f\<close> is a write \<open>f\<close> to the
  card state by a handler of instance \<open>g\<close>: it takes effect when \<open>g\<close> is the mounted
  instance, and does nothing otherwise. \<open>bot_says\<close> is \<^verbatim>\<open>setMessages\<close> appending a bot
  message, with the render that follows.
\<close>

definition remount :: "state \<Rightarrow> state" where
  "remount s =
     s\<lparr>mounted := mounted s + 1, showSetupSteps := False, currentStep := 1,
       stepStatuses := initialStatuses, isConnecting := False, connectingTool := Some []\<rparr>"

definition on_card :: "nat \<Rightarrow> (state \<Rightarrow> state) \<Rightarrow> state \<Rightarrow> state" where
  "on_card g f s = (if g = mounted s then f s else s)"

definition bot_says :: "string \<Rightarrow> workflowSuggestion option \<Rightarrow> state \<Rightarrow> state" where
  "bot_says txt w s =
     remount
       (s\<lparr>messages := messages s @
            [\<lparr>msg_id = clock s, msg_type = BotMsg, content = txt, timestamp = clock s,
              workflowSuggestion = w\<rparr>]\<rparr>)"

definition prefilledWorkflows :: "(string \<times> string \<times> workflowSuggestion) list" where
  "prefilledWorkflows =
     [(''Daily Slack Standup Reminder'', ''Send a Slack message every weekday morning'',
       \<lparr>trigger = ''Time-based'', action = ''Send Slack message'',
         frequency = ''Weekdays at 9:00 AM'', tools = [''Slack''],
         missingInfo = None, prefilled = Some True\<rparr>),
      (''Email to WhatsApp Notifications'', ''Get WhatsApp alerts for important emails'',
       \<lparr>trigger = ''Email received'', action = ''Send WhatsApp message'',
         frequency = ''Every time'', tools = [''Gmail'', ''WhatsApp''],
         missingInfo = None, prefilled = Some True\<rparr>),
      (''Weekly Team Report'', ''Automatically generate and send weekly reports'',
       \<lparr>trigger = ''Time-based'', action = ''Generate report'',
         frequency = ''Weekly on Fridays'', tools = [''Google Sheets'', ''Slack''],
         missingInfo = None, prefilled = Some True\<rparr>)]"

definition analyzeUserIntent_of :: "component \<Rightarrow> string \<Rightarrow> workflowSuggestion option" where
  "analyzeUserIntent_of c message =
     (if c = Part000b then analyzeUserIntent_preview message else analyzeUserIntent message)"

definition handleSendMessage :: "component \<Rightarrow> state \<Rightarrow> state" where
  "handleSendMessage c s =
     (if trim (input s) = [] then s
      else setTimeout (BotReply (input s)) 1500 (mounted s)
             (remount
                (s\<lparr>messages := messages s @
                      [\<lparr>msg_id = clock s, msg_type = UserMsg, content = input s,
                        timestamp = clock s, workflowSuggestion = None\<rparr>],
                   input := [], isTyping := True\<rparr>)))"

text \<open>The callback of \<^verbatim>\<open>handleSendMessage\<close>; \<open>inp\<close> is the input it closed over.\<close>

definition botReply :: "component \<Rightarrow> string \<Rightarrow> state \<Rightarrow> state" where
  "botReply c inp s =
     (let workflowSuggestion = analyzeUserIntent_of c inp;
          botResponse = (if workflowSuggestion \<noteq> None then understood c inp else clarification)
      in remount
           (s\<lparr>messages := messages s @
                 [\<lparr>msg_id = clock s + 1, msg_type = BotMsg, content = botResponse,
                   timestamp = clock s, workflowSuggestion = workflowSuggestion\<rparr>],
              isTyping := False\<rparr>))"

definition handlePrefilledWorkflow :: "workflowSuggestion \<Rightarrow> state \<Rightarrow> state" where
  "handlePrefilledWorkflow workflow s =
     bot_says ''Great choice! Let me set up this workflow for you. You can customize any of the settings below:''
       (Some workflow) s"

subsection \<open>Tool connection\<close>

definition connectedToolsList :: "workflowSuggestion \<Rightarrow> state \<Rightarrow> string list" where
  "connectedToolsList sg s = filter (\<lambda>tool. connectedTools s tool = Some True) (tools sg)"

definition disconnectedToolsList :: "workflowSuggestion \<Rightarrow> state \<Rightarrow> string list" where
  "disconnectedToolsList sg s = filter (\<lambda>tool. connectedTools s tool \<noteq> Some True) (tools sg)"

definition allToolsConnected :: "workflowSuggestion \<Rightarrow> state \<Rightarrow> bool" where
  "allToolsConnected sg s = (length (disconnectedToolsList sg s) = 0)"

text \<open>
  \<^verbatim>\<open>connectTool\<close> returns a promise and sets a 2000 ms timer. What happens when that timer
  fires is \<open>connectTool_settle\<close>: the tool's flag is set and the promise resolves; the
  promise has no rejecting path. The caller that awaits it sets the timer with its own
  continuation (\<open>ConnectToolSettled_000\<close>, \<open>ConnectToolSettled_001\<close>).
  \<^verbatim>\<open>setConnectedTools\<close> builds a new object whatever the flag was, so
  \<^verbatim>\<open>ChatInterface\<close> renders once the continuation has run; that render is part of the
  continuation's step.
\<close>

definition connectTool_settle :: "string option \<Rightarrow> state \<Rightarrow> outcome \<times> state" where
  "connectTool_settle toolName s =
     (Resolved, s\<lparr>connectedTools := (connectedTools s)(to_text toolName \<mapsto> True)\<rparr>)"

definition suggestToolConnection :: "string \<Rightarrow> state \<Rightarrow> state" where
  \<open>suggestToolConnection toolName s =
     bot_says (''I notice you need '' @ toolName @ '' for this workflow. Would you like me to help you connect it? It's quick and secure! '' @ link_symbol)
       None s\<close>

subsection \<open>The sequencer of the first component of \<^verbatim>\<open>part_000\<close>\<close>

text \<open>
  \<open>connectToolSettled_000\<close> is what \<^verbatim>\<open>handleConnectTool\<close> does after
  \<^verbatim>\<open>await connectTool(...)\<close>: the \<^verbatim>\<open>try\<close> branch when the promise resolved, the
  \<^verbatim>\<open>catch\<close> branch when it rejected. \<open>permissionsConfigured_000\<close>,
  \<open>testFinished_000\<close> and \<open>successAlert_000\<close> are the timer callbacks nested in
  \<^verbatim>\<open>handleConfigurePermissions\<close> and \<^verbatim>\<open>handleTestWorkflow\<close>. The handlers that a
  button calls belong to the mounted card; those that a timer calls take the number \<open>g\<close>
  of the instance whose handler set the timer. Writes to the console are left out.
\<close>

definition handleConnectWorkflow_000 :: "workflowSuggestion \<Rightarrow> state \<Rightarrow> state" where
  "handleConnectWorkflow_000 sg s =
     (if \<not> allToolsConnected sg s
      then fold suggestToolConnection (disconnectedToolsList sg s) s
      else s\<lparr>showSetupSteps := True\<rparr>)"

definition handleConnectTool_000 :: "workflowSuggestion \<Rightarrow> string option \<Rightarrow> state \<Rightarrow> state" where
  "handleConnectTool_000 sg toolName s =
     (let toolToConnect = js_or toolName (first (disconnectedToolsList sg s))
      in setTimeout (ConnectToolSettled_000 toolToConnect) 2000 (mounted s)
           (s\<lparr>isConnecting := True, connectingTool := toolToConnect,
              stepStatuses := (stepStatuses s)\<lparr>connect := Loading\<rparr>\<rparr>))"

definition connectToolSettled_000 :: "nat \<Rightarrow> string option \<Rightarrow> state \<Rightarrow> state" where
  "connectToolSettled_000 g toolToConnect s =
     (case connectTool_settle toolToConnect s of
        (Resolved, s1) \<Rightarrow>
          remount
            (setTimeout ConfigurePermissions_000 1000 g
               (on_card g
                  (\<lambda>s. s\<lparr>stepStatuses := (stepStatuses s)\<lparr>connect := Completed\<rparr>,
                          isConnecting := False, currentStep := 2\<rparr>) s1))
      | (Rejected, s1) \<Rightarrow> remount (on_card g (\<lambda>s. s\<lparr>isConnecting := False\<rparr>) s1))"

definition handleConfigurePermissions :: "nat \<Rightarrow> state \<Rightarrow> state" where
  "handleConfigurePermissions g s =
     setTimeout PermissionsConfigured_000 1500 g
       (on_card g (\<lambda>s. s\<lparr>stepStatuses := (stepStatuses s)\<lparr>permissions := Loading\<rparr>\<rparr>) s)"

definition permissionsConfigured_000 :: "nat \<Rightarrow> state \<Rightarrow> state" where
  "permissionsConfigured_000 g s =
     setTimeout TestWorkflow_000 1000 g
       (on_card g
          (\<lambda>s. s\<lparr>stepStatuses := (stepStatuses s)\<lparr>permissions := Completed\<rparr>,
                  currentStep := 3\<rparr>) s)"

definition handleTestWorkflow :: "nat \<Rightarrow> state \<Rightarrow> state" where
  "handleTestWorkflow g s =
     setTimeout TestFinished_000 2000 g
       (on_card g (\<lambda>s. s\<lparr>stepStatuses := (stepStatuses s)\<lparr>test := Loading\<rparr>\<rparr>) s)"

definition testFinished_000 :: "nat \<Rightarrow> state \<Rightarrow> state" where
  "testFinished_000 g s =
     setTimeout SuccessAlert_000 500 g
       (on_card g (\<lambda>s. s\<lparr>stepStatuses := (stepStatuses s)\<lparr>test := Completed\<rparr>\<rparr>) s)"

definition successAlert_000 :: "state \<Rightarrow> state" where
  "successAlert_000 s = s\<lparr>alerts := alerts s @ [activated_text]\<rparr>"

definition handleViewDashboard_000 :: "state \<Rightarrow> state" where
  "handleViewDashboard_000 s =
     bot_says ''Opening your workflow dashboard! Here you can see all your active automations, their performance, and recent activity.''
       None s"

definition handleEditWorkflow_000 :: "state \<Rightarrow> state" where
  "handleEditWorkflow_000 s =
     bot_says ''Great! You can now edit your workflow settings below. Make any changes you need and then save the updated workflow.''
       None
       (s\<lparr>showSetupSteps := False, currentStep := 1,
          stepStatuses := \<lparr>connect = Pending, permissions = Pending, test = Pending\<rparr>\<rparr>)"

subsection \<open>The sequencer of \<^verbatim>\<open>part_001\<close>\<close>

text \<open>
  \<open>connectToolSettled_001\<close> is what \<^verbatim>\<open>handleConnectTool\<close> does after
  \<^verbatim>\<open>await connectTool(...)\<close>; \<open>setupConnected_001\<close> to \<open>setupSuccess_001\<close> are the
  six nested timer callbacks of \<^verbatim>\<open>handleConnectWorkflow\<close>, outermost first.
  \<^verbatim>\<open>part_001\<close> also declares \<^verbatim>\<open>handleConfigurePermissions\<close> and
  \<^verbatim>\<open>handleTestWorkflow\<close>, but nothing calls them there, so they are no operations of
  this sequencer. The last callback appends the success message with \<^verbatim>\<open>setMessages\<close>.
\<close>

definition handleConnectTool_001 :: "workflowSuggestion \<Rightarrow> string option \<Rightarrow> state \<Rightarrow> state" where
  "handleConnectTool_001 sg toolName s =
     setTimeout (ConnectToolSettled_001 toolName (disconnectedToolsList sg s)) 2000 (mounted s)
       (s\<lparr>isConnecting := True, connectingTool := toolName\<rparr>)"

definition connectToolSettled_001 ::
  "nat \<Rightarrow> string option \<Rightarrow> string list \<Rightarrow> state \<Rightarrow> state" where
  \<open>connectToolSettled_001 g toolName disconnected s =
     (case connectTool_settle toolName s of
        (Resolved, s1) \<Rightarrow>
          bot_says
            (party_popper @ '' Great! '' @ to_text toolName @ '' is now connected. '' @
             (if length (filter (\<lambda>t. Some t \<noteq> toolName) disconnected) = 0
              then ''All tools are connected! You can now set up your workflow.''
              else ''You still need to connect '' @
                   join '', '' (filter (\<lambda>t. Some t \<noteq> toolName) disconnected) @ ''.''))
            None
            (on_card g (\<lambda>s. s\<lparr>isConnecting := False, connectingTool := Some []\<rparr>) s1)
      | (Rejected, s1) \<Rightarrow>
          remount (on_card g (\<lambda>s. s\<lparr>isConnecting := False, connectingTool := Some []\<rparr>) s1))\<close>

definition handleConnectWorkflow_001 :: "workflowSuggestion \<Rightarrow> state \<Rightarrow> state" where
  "handleConnectWorkflow_001 sg s =
     (if \<not> allToolsConnected sg s
      then (if length (disconnectedToolsList sg s) > 0
            then handleConnectTool_001 sg
                   (js_or (first (disconnectedToolsList sg s)) (first (tools sg))) s
            else s)
      else setTimeout SetupConnected_001 1000 (mounted s)
             (s\<lparr>showSetupSteps := True, currentStep := 1,
                stepStatuses := \<lparr>connect = Loading, permissions = Pending, test = Pending\<rparr>\<rparr>))"

definition setupConnected_001 :: "nat \<Rightarrow> state \<Rightarrow> state" where
  "setupConnected_001 g s =
     setTimeout SetupPermissions_001 1000 g
       (on_card g (\<lambda>s. s\<lparr>stepStatuses := (stepStatuses s)\<lparr>connect := Completed\<rparr>, currentStep := 2\<rparr>) s)"

definition setupPermissions_001 :: "nat \<Rightarrow> state \<Rightarrow> state" where
  "setupPermissions_001 g s =
     setTimeout SetupPermissionsDone_001 1500 g
       (on_card g (\<lambda>s. s\<lparr>stepStatuses := (stepStatuses s)\<lparr>permissions := Loading\<rparr>\<rparr>) s)"

definition setupPermissionsDone_001 :: "nat \<Rightarrow> state \<Rightarrow> state" where
  "setupPermissionsDone_001 g s =
     setTimeout SetupTest_001 1000 g
       (on_card g (\<lambda>s. s\<lparr>stepStatuses := (stepStatuses s)\<lparr>permissions := Completed\<rparr>, currentStep := 3\<rparr>) s)"

definition setupTest_001 :: "nat \<Rightarrow> state \<Rightarrow> state" where
  "setupTest_001 g s =
     setTimeout SetupTestDone_001 2000 g
       (on_card g (\<lambda>s. s\<lparr>stepStatuses := (stepStatuses s)\<lparr>test := Loading\<rparr>\<rparr>) s)"

definition setupTestDone_001 :: "nat \<Rightarrow> state \<Rightarrow> state" where
  "setupTestDone_001 g s =
     setTimeout SetupSuccess_001 500 g
       (on_card g (\<lambda>s. s\<lparr>stepStatuses := (stepStatuses s)\<lparr>test := Completed\<rparr>\<rparr>) s)"

definition setupSuccess_001 :: "state \<Rightarrow> state" where
  "setupSuccess_001 s = bot_says activated_text None s"

definition handleViewDashboard_001 :: "state \<Rightarrow> state" where
  "handleViewDashboard_001 s =
     bot_says (rocket @ '' Opening your workflow dashboard! Here you can monitor all your active automations, view performance metrics, and see recent activity.'')
       None (s\<lparr>showDashboard := True\<rparr>)"

definition handleEditWorkflow_001 :: "state \<Rightarrow> state" where
  \<open>handleEditWorkflow_001 s =
     bot_says (pencil @ '' Perfect! You can now edit your workflow settings below. Make any changes you need and then click 'Set Up Workflow' again to save the updated workflow.'')
       None
       (s\<lparr>showSetupSteps := False, currentStep := 1,
          stepStatuses := \<lparr>connect = Pending, permissions = Pending, test = Pending\<rparr>\<rparr>)\<close>

section \<open>Operations and runs\<close>

text \<open>What a timer callback set by a handler of card instance \<open>g\<close> does when it fires.\<close>

fun run_callback :: "component \<Rightarrow> nat \<Rightarrow> callback \<Rightarrow> state \<Rightarrow> state" where
  "run_callback c g (BotReply inp) s = botReply c inp s"
| "run_callback c g (ConnectToolSettled_000 t) s = connectToolSettled_000 g t s"
| "run_callback c g ConfigurePermissions_000 s = handleConfigurePermissions g s"
| "run_callback c g PermissionsConfigured_000 s = permissionsConfigured_000 g s"
| "run_callback c g TestWorkflow_000 s = handleTestWorkflow g s"
| "run_callback c g TestFinished_000 s = testFinished_000 g s"
| "run_callback c g SuccessAlert_000 s = successAlert_000 s"
| "run_callback c g (ConnectToolSettled_001 t dl) s = connectToolSettled_001 g t dl s"
| "run_callback c g SetupConnected_001 s = setupConnected_001 g s"
| "run_callback c g SetupPermissions_001 s = setupPermissions_001 g s"
| "run_callback c g SetupPermissionsDone_001 s = setupPermissionsDone_001 g s"
| "run_callback c g SetupTest_001 s = setupTest_001 g s"
| "run_callback c g SetupTestDone_001 s = setupTestDone_001 g s"
| "run_callback c g SetupSuccess_001 s = setupSuccess_001 s"

text \<open>
  Firing the pending timer at position \<open>i\<close>: it leaves the queue, the clock moves to its
  due time if that is later, and its callback runs.
\<close>

definition fire :: "component \<Rightarrow> nat \<Rightarrow> state \<Rightarrow> state" where
  "fire c i s =
     (if i < length (timers s)
      then run_callback c (fst (snd (timers s ! i))) (snd (snd (timers s ! i)))
             (s\<lparr>timers := take i (timers s) @ drop (Suc i) (timers s),
                clock := max (clock s) (fst (timers s ! i))\<rparr>)
      else s)"

text \<open>
  The operations of a component on one card: what the user can do (type, send, pick a
  prefilled workflow, press a button of the card, open or close the dashboard sheet), time
  passing, and a pending timer firing. \<open>ConnectTool\<close> carries the argument handed to
  \<^verbatim>\<open>handleConnectTool\<close>. Typing and the dashboard sheet write \<^verbatim>\<open>ChatInterface\<close>'s state,
  which renders it when the value is a new one.
\<close>

datatype event =
    SetInput string
  | SendMessage
  | PrefilledWorkflow workflowSuggestion
  | ConnectWorkflow
  | ConnectTool "string option"
  | EditWorkflow
  | ViewDashboard
  | SetShowDashboard bool
  | Tick nat
  | Fire nat

fun apply_event :: "component \<Rightarrow> workflowSuggestion \<Rightarrow> event \<Rightarrow> state \<Rightarrow> state" where
  "apply_event c sg (SetInput v) s = (if v = input s then s else remount (s\<lparr>input := v\<rparr>))"
| "apply_event c sg SendMessage s = handleSendMessage c s"
| "apply_event c sg (PrefilledWorkflow w) s =
     (case c of Part000a \<Rightarrow> handlePrefilledWorkflow w s
      | Part001 \<Rightarrow> handlePrefilledWorkflow w s | _ \<Rightarrow> s)"
| "apply_event c sg ConnectWorkflow s =
     (case c of Part000a \<Rightarrow> handleConnectWorkflow_000 sg s
      | Part001 \<Rightarrow> handleConnectWorkflow_001 sg s | _ \<Rightarrow> s)"
| "apply_event c sg (ConnectTool a) s =
     (case c of Part000a \<Rightarrow> handleConnectTool_000 sg a s
      | Part001 \<Rightarrow> handleConnectTool_001 sg a s | _ \<Rightarrow> s)"
| "apply_event c sg EditWorkflow s =
     (case c of Part000a \<Rightarrow> handleEditWorkflow_000 s
      | Part001 \<Rightarrow> handleEditWorkflow_001 s | _ \<Rightarrow> s)"
| "apply_event c sg ViewDashboard s =
     (case c of Part000a \<Rightarrow> handleViewDashboard_000 s
      | Part001 \<Rightarrow> handleViewDashboard_001 s | _ \<Rightarrow> s)"
| "apply_event c sg (SetShowDashboard b) s =
     (case c of
        Part001 \<Rightarrow> if b = showDashboard s then s else remount (s\<lparr>showDashboard := b\<rparr>)
      | _ \<Rightarrow> s)"
| "apply_event c sg (Tick d) s = s\<lparr>clock := clock s + d\<rparr>"
| "apply_event c sg (Fire i) s = fire c i s"

primrec exec :: "component \<Rightarrow> workflowSuggestion \<Rightarrow> event list \<Rightarrow> state \<Rightarrow> state" where
  "exec c sg [] s = s"
| "exec c sg (e # es) s = exec c sg es (apply_event c sg e s)"

text \<open>
  What the rendered page lets happen in a state: a button must be rendered and not
  disabled, a timer must be pending. Pending timers may fire in any order, which covers
  the order of their due times. The Enter key calls \<^verbatim>\<open>handleSendMessage\<close> whatever the
  state is.
\<close>

fun enabled :: "component \<Rightarrow> workflowSuggestion \<Rightarrow> event \<Rightarrow> state \<Rightarrow> bool" where
  "enabled c sg (SetInput v) s = True"
| "enabled c sg SendMessage s = True"
| "enabled c sg (Tick d) s = True"
| "enabled c sg (Fire i) s = (i < length (timers s))"
| "enabled c sg (PrefilledWorkflow w) s =
     ((c = Part000a \<or> c = Part001) \<and> length (messages s) = 1
      \<and> w \<in> set (map (\<lambda>p. snd (snd p)) prefilledWorkflows))"
| "enabled c sg ConnectWorkflow s =
     (case c of
        Part000a \<Rightarrow> \<not> showSetupSteps s
      | Part001 \<Rightarrow> test (stepStatuses s) \<noteq> Completed \<and> \<not> showSetupSteps s
                   \<and> allToolsConnected sg s
      | _ \<Rightarrow> False)"
| "enabled c sg (ConnectTool a) s =
     (case c of
        Part000a \<Rightarrow>
          (\<not> allToolsConnected sg s \<and> (\<exists>t \<in> set (disconnectedToolsList sg s). a = Some t))
          \<or> (showSetupSteps s \<and> connect (stepStatuses s) = Pending \<and> \<not> isConnecting s
              \<and> a = None)
      | Part001 \<Rightarrow>
          (\<not> allToolsConnected sg s \<and> (\<exists>t \<in> set (disconnectedToolsList sg s). a = Some t)
           \<and> \<not> (isConnecting s \<and> connectingTool s = a))
          \<or> (showSetupSteps s \<and> connect (stepStatuses s) = Pending \<and> \<not> isConnecting s
              \<and> a = js_or (first (disconnectedToolsList sg s)) (first (tools sg)))
      | _ \<Rightarrow> False)"
| "enabled c sg EditWorkflow s =
     (case c of
        Part000a \<Rightarrow> showSetupSteps s \<and> test (stepStatuses s) = Completed
      | Part001 \<Rightarrow> test (stepStatuses s) = Completed
      | _ \<Rightarrow> False)"
| "enabled c sg ViewDashboard s =
     (case c of
        Part000a \<Rightarrow> showSetupSteps s \<and> test (stepStatuses s) = Completed
      | Part001 \<Rightarrow> test (stepStatuses s) = Completed
      | _ \<Rightarrow> False)"
| "enabled c sg (SetShowDashboard b) s = (c = Part001)"

primrec valid :: "component \<Rightarrow> workflowSuggestion \<Rightarrow> event list \<Rightarrow> state \<Rightarrow> bool" where
  "valid c sg [] s = True"
| "valid c sg (e # es) s = (enabled c sg e s \<and> valid c sg es (apply_event c sg e s))"

subsection \<open>Letting the timers run\<close>

text \<open>The position of the timer that is due first (the earliest set among equals).\<close>

fun earliest :: "(nat \<times> 'a) list \<Rightarrow> nat" where
  "earliest [] = 0"
| "earliest [x] = 0"
| "earliest (x # y # ys) =
     (let j = earliest (y # ys) in if fst x \<le> fst ((y # ys) ! j) then 0 else Suc j)"

text \<open>How many timer firings a pending callback still stands for, itself included.\<close>

fun work :: "callback \<Rightarrow> nat" where
  "work (BotReply inp) = 1"
| "work (ConnectToolSettled_000 t) = 6"
| "work ConfigurePermissions_000 = 5"
| "work PermissionsConfigured_000 = 4"
| "work TestWorkflow_000 = 3"
| "work TestFinished_000 = 2"
| "work SuccessAlert_000 = 1"
| "work (ConnectToolSettled_001 t dl) = 1"
| "work SetupConnected_001 = 6"
| "work SetupPermissions_001 = 5"
| "work SetupPermissionsDone_001 = 4"
| "work SetupTest_001 = 3"
| "work SetupTestDone_001 = 2"
| "work SetupSuccess_001 = 1"

definition pending_work :: "state \<Rightarrow> nat" where
  "pending_work s = sum_list (map (\<lambda>p. work (snd (snd p))) (timers s))"

text \<open>
  \<open>run_for n\<close> fires the timers in the order of their due times, at most \<open>n\<close> of them, and
  lists the states passed through. \<open>run\<close> gives it as many steps as the pending callbacks
  stand for, which is enough to empty the queue.
\<close>

fun run_for :: "nat \<Rightarrow> component \<Rightarrow> state \<Rightarrow> state list" where
  "run_for 0 c s = []"
| "run_for (Suc n) c s =
     (if timers s = [] then []
      else fire c (earliest (timers s)) s # run_for n c (fire c (earliest (timers s)) s))"

definition run :: "component \<Rightarrow> state \<Rightarrow> state list" where
  "run c s = run_for (pending_work s) c s"

subsection \<open>Order of the statuses\<close>

fun stage_rank :: "status \<Rightarrow> nat" where
  "stage_rank Pending = 0"
| "stage_rank Loading = 1"
| "stage_rank Completed = 2"

text \<open>No stage of \<open>b\<close> is behind where it was in \<open>a\<close>.\<close>

definition forward :: "stepStatuses \<Rightarrow> stepStatuses \<Rightarrow> bool" where
  "forward a b \<longleftrightarrow>
     stage_rank (connect a) \<le> stage_rank (connect b)
     \<and> stage_rank (permissions a) \<le> stage_rank (permissions b)
     \<and> stage_rank (test a) \<le> stage_rank (test b)"

section \<open>Example suggestions and invariants of the sequencers\<close>

definition dailyStandup :: workflowSuggestion where
  "dailyStandup = snd (snd (prefilledWorkflows ! 0))"

definition emailToWhatsApp :: workflowSuggestion where
  "emailToWhatsApp = snd (snd (prefilledWorkflows ! 1))"

text \<open>
  The invariant behind the connect stage. Every pending timer was set by the mounted card
  or by an earlier one, and while the connect stage of the mounted card is completed, or
  the callback that completes it is pending for the mounted card, all required tools are
  connected.
\<close>

definition connect_guarded :: "workflowSuggestion \<Rightarrow> state \<Rightarrow> bool" where
  "connect_guarded sg s \<longleftrightarrow>
     (\<forall>p \<in> set (timers s). fst (snd p) \<le> mounted s)
     \<and> (connect (stepStatuses s) = Completed
          \<or> (\<exists>p \<in> set (timers s). fst (snd p) = mounted s \<and> snd (snd p) = SetupConnected_001)
          \<longrightarrow> allToolsConnected sg s)"

section \<open>Facts about strings\<close>

lemma toLowerCase_unit_Char [simp]:
  "toLowerCase_unit (Char b0 b1 b2 b3 b4 b5 b6 b7) =
     (if 65 \<le> (of_char (Char b0 b1 b2 b3 b4 b5 b6 b7) :: nat)
         \<and> (of_char (Char b0 b1 b2 b3 b4 b5 b6 b7) :: nat) \<le> 90
      then Char b0 b1 b2 b3 b4 True b6 b7 else Char b0 b1 b2 b3 b4 b5 b6 b7)"
  by (cases b0; cases b1; cases b2; cases b3; cases b4; cases b5; cases b6; cases b7;
      simp add: toLowerCase_unit_def char_of_def bit_iff_odd)

lemma toLowerCase_simps [simp]:
  "toLowerCase [] = []"
  "toLowerCase (c # s) = toLowerCase_unit c # toLowerCase s"
  by (simp_all add: toLowerCase_def)

lemma startsWith_iff: "startsWith s t \<longleftrightarrow> (\<exists>q. s = t @ q)"
  by (induction s t rule: startsWith.induct) auto

lemma str_includes_iff: "str_includes s t \<longleftrightarrow> (\<exists>p q. s = p @ t @ q)"
proof (induction s)
  case Nil
  then show ?case by auto
next
  case (Cons a s)
  show ?case
  proof
    assume "str_includes (a # s) t"
    then consider "startsWith (a # s) t" | "str_includes s t" by auto
    then show "\<exists>p q. a # s = p @ t @ q"
    proof cases
      case 1
      then obtain q where "a # s = t @ q" by (auto simp: startsWith_iff)
      then have "a # s = [] @ t @ q" by simp
      then show ?thesis by blast
    next
      case 2
      then obtain p q where "s = p @ t @ q" using Cons.IH by auto
      then have "a # s = (a # p) @ t @ q" by simp
      then show ?thesis by blast
    qed
  next
    assume "\<exists>p q. a # s = p @ t @ q"
    then obtain p q where pq: "a # s = p @ t @ q" by auto
    show "str_includes (a # s) t"
    proof (cases p)
      case Nil
      with pq have "startsWith (a # s) t" by (auto simp: startsWith_iff)
      then show ?thesis by simp
    next
      case (Cons b p')
      with pq have "s = p' @ t @ q" by simp
      then have "str_includes s t" using Cons.IH by blast
      then show ?thesis by simp
    qed
  qed
qed

section \<open>The classifier: rule 1, rule precedence, rule 3\<close>

text \<open>
  C3. Whenever the lower-cased input contains both "slack" and "daily", the classifier
  (in every version of the component) answers with a suggestion whose action is
  "Send Slack message" and whose tools are exactly ["Slack"].
\<close>

theorem analyzeUserIntent_slack_daily:
  assumes "str_includes (toLowerCase message) ''slack''"
    and "str_includes (toLowerCase message) ''daily''"
  shows "(\<exists>w. analyzeUserIntent message = Some w
              \<and> action w = ''Send Slack message'' \<and> tools w = [''Slack''])
       \<and> (\<exists>w. analyzeUserIntent_preview message = Some w
              \<and> action w = ''Send Slack message'' \<and> tools w = [''Slack''])"
  using assms by (simp add: analyzeUserIntent_def analyzeUserIntent_preview_def)

theorem analyzeUserIntent_slack_daily_witness:
  "str_includes (toLowerCase ''Post to SLACK daily'') ''slack''
   \<and> str_includes (toLowerCase ''Post to SLACK daily'') ''daily''
   \<and> (\<exists>w. analyzeUserIntent ''Post to SLACK daily'' = Some w
            \<and> action w = ''Send Slack message'' \<and> tools w = [''Slack''])"
proof -
  have a: "str_includes (toLowerCase ''Post to SLACK daily'') ''slack''" by simp
  have b: "str_includes (toLowerCase ''Post to SLACK daily'') ''daily''" by simp
  from analyzeUserIntent_slack_daily [OF a b] a b show ?thesis by blast
qed




text \<open>
  C7. On "remind me to call mom" rule 3 answers (the input contains "remind" and rules 1
  and 2 do not match): the tools are exactly ["Calendar", "Notifications"] and there are
  exactly two missing-info prompts, in every version of the classifier.
\<close>

theorem analyzeUserIntent_remind:
  \<open>str_includes (toLowerCase ''remind me to call mom'') ''remind''
   \<and> map_option (\<lambda>w. (action w, tools w, map_option length (missingInfo w)))
        (analyzeUserIntent ''remind me to call mom'')
      = Some (''Send reminder'', [''Calendar'', ''Notifications''], Some 2)
   \<and> map_option (\<lambda>w. (action w, tools w, map_option length (missingInfo w)))
        (analyzeUserIntent_preview ''remind me to call mom'')
      = Some (''Send reminder'', [''Calendar'', ''Notifications''], Some 2)\<close>
  by (simp add: analyzeUserIntent_def analyzeUserIntent_preview_def)


section \<open>Sending a message\<close>

lemma isWhiteSpace_Char [simp]:
  "isWhiteSpace (Char b0 b1 b2 b3 b4 b5 b6 b7) =
     ((9 \<le> (of_char (Char b0 b1 b2 b3 b4 b5 b6 b7) :: nat)
       \<and> (of_char (Char b0 b1 b2 b3 b4 b5 b6 b7) :: nat) \<le> 13)
      \<or> (of_char (Char b0 b1 b2 b3 b4 b5 b6 b7) :: nat) = 32)"
  by (simp add: isWhiteSpace_def)


text \<open>
  C10. When the trimmed input is empty, \<^verbatim>\<open>handleSendMessage\<close> returns at once: the whole
  state (message list, typing flag, input field, pending timers) is what it was, in every
  version of the component.
\<close>

theorem handleSendMessage_blank:
  "trim (input s) = [] \<Longrightarrow> handleSendMessage c s = s"
  by (simp add: handleSendMessage_def)

theorem handleSendMessage_blank_witness:
  "trim (input ((init_state ChatInterface 0)\<lparr>input := [CHR '' '', CHR 0x09, CHR '' '']\<rparr>)) = []
   \<and> handleSendMessage ChatInterface
        ((init_state ChatInterface 0)\<lparr>input := [CHR '' '', CHR 0x09, CHR '' '']\<rparr>)
      = (init_state ChatInterface 0)\<lparr>input := [CHR '' '', CHR 0x09, CHR '' '']\<rparr>"
proof -
  have h: "trim (input ((init_state ChatInterface 0)\<lparr>input := [CHR '' '', CHR 0x09, CHR '' '']\<rparr>)) = []"
    by (simp add: trim_def)
  from handleSendMessage_blank [OF h] h show ?thesis by simp
qed



section \<open>Connecting a tool\<close>

text \<open>
  C5. Connecting a tool whose flag is already true changes nothing: when the timer of
  \<^verbatim>\<open>connectTool\<close> fires, the promise resolves (there is no rejection) and the state,
  hence the whole tool map, is the one before; the continuations of
  \<^verbatim>\<open>handleConnectTool\<close> in both sequencers, whichever card instance they belong to,
  leave the tool map as it is too.
\<close>

theorem connectTool_idempotent:
  assumes "connectedTools s t = Some True"
  shows "connectTool_settle (Some t) s = (Resolved, s)
       \<and> connectedTools (connectToolSettled_000 g (Some t) s) = connectedTools s
       \<and> connectedTools (connectToolSettled_001 g (Some t) dl s) = connectedTools s"
proof -
  have "(connectedTools s)(t \<mapsto> True) = connectedTools s"
    using assms by (simp add: fun_upd_idem)
  then have "connectTool_settle (Some t) s = (Resolved, s)"
    by (simp add: connectTool_settle_def to_text_def)
  then show ?thesis
    by (simp add: connectToolSettled_000_def connectToolSettled_001_def setTimeout_def
        bot_says_def remount_def on_card_def)
qed

theorem connectTool_idempotent_witness:
  "connectedTools (init_state Part001 0) ''Slack'' = Some True
   \<and> connectTool_settle (Some ''Slack'') (init_state Part001 0) = (Resolved, init_state Part001 0)"
proof -
  have h: "connectedTools (init_state Part001 0) ''Slack'' = Some True"
    by (simp add: init_state_def initialTools_def)
  from connectTool_idempotent [OF h] h show ?thesis by blast
qed

section \<open>Effects of the operations\<close>

lemmas callback_defs =
  botReply_def connectToolSettled_000_def handleConfigurePermissions_def
  permissionsConfigured_000_def handleTestWorkflow_def testFinished_000_def
  successAlert_000_def connectToolSettled_001_def setupConnected_001_def
  setupPermissions_001_def setupPermissionsDone_001_def setupTest_001_def
  setupTestDone_001_def setupSuccess_001_def connectTool_settle_def
  setTimeout_def bot_says_def remount_def on_card_def

lemmas handler_defs =
  handleSendMessage_def handlePrefilledWorkflow_def handleConnectWorkflow_000_def
  handleConnectTool_000_def handleViewDashboard_000_def handleEditWorkflow_000_def
  handleConnectTool_001_def handleConnectWorkflow_001_def handleViewDashboard_001_def
  handleEditWorkflow_001_def

lemma fold_suggest_frame [simp]:
  "connectedTools (fold suggestToolConnection xs s) = connectedTools s"
  "timers (fold suggestToolConnection xs s) = timers s"
  "mounted (fold suggestToolConnection xs s) = mounted s + length xs"
  by (induction xs arbitrary: s; simp add: suggestToolConnection_def bot_says_def remount_def)+

lemma fold_suggest_statuses:
  "xs \<noteq> [] \<Longrightarrow> stepStatuses (fold suggestToolConnection xs s) = initialStatuses"
proof (induction xs arbitrary: s rule: rev_induct)
  case Nil
  then show ?case by simp
next
  case (snoc x xs)
  show ?case by (simp add: suggestToolConnection_def bot_says_def remount_def)
qed

lemma run_callback_connectedTools:
  "connectedTools (run_callback c g cb s) =
     (case cb of
        ConnectToolSettled_000 a \<Rightarrow> (connectedTools s)(to_text a \<mapsto> True)
      | ConnectToolSettled_001 a dl \<Rightarrow> (connectedTools s)(to_text a \<mapsto> True)
      | _ \<Rightarrow> connectedTools s)"
  by (cases cb) (simp_all add: callback_defs Let_def)

lemma apply_event_connectedTools:
  "connectedTools (apply_event c sg e s) =
     (case e of
        Fire i \<Rightarrow>
          (if i < length (timers s)
           then (case snd (snd (timers s ! i)) of
                   ConnectToolSettled_000 a \<Rightarrow> (connectedTools s)(to_text a \<mapsto> True)
                 | ConnectToolSettled_001 a dl \<Rightarrow> (connectedTools s)(to_text a \<mapsto> True)
                 | _ \<Rightarrow> connectedTools s)
           else connectedTools s)
      | _ \<Rightarrow> connectedTools s)"
  by (cases e; cases c)
    (simp_all add: handler_defs setTimeout_def bot_says_def remount_def fire_def
       run_callback_connectedTools Let_def
       split: callback.splits)

lemma apply_event_keeps_true:
  "connectedTools s t = Some True \<Longrightarrow> connectedTools (apply_event c sg e s) t = Some True"
  by (simp add: apply_event_connectedTools split: event.splits callback.splits)

lemma apply_event_keeps_dom:
  "t \<in> dom (connectedTools s) \<Longrightarrow> t \<in> dom (connectedTools (apply_event c sg e s))"
  by (auto simp add: apply_event_connectedTools split: event.splits callback.splits)

lemma exec_keeps_true:
  "connectedTools s t = Some True \<Longrightarrow> connectedTools (exec c sg evs s) t = Some True"
  by (induction evs arbitrary: s) (simp_all add: apply_event_keeps_true)

lemma exec_keeps_dom:
  "t \<in> dom (connectedTools s) \<Longrightarrow> t \<in> dom (connectedTools (exec c sg evs s))"
  by (induction evs arbitrary: s) (simp_all add: apply_event_keeps_dom)

lemma allToolsConnected_iff:
  "allToolsConnected sg s \<longleftrightarrow> (\<forall>t \<in> set (tools sg). connectedTools s t = Some True)"
  by (simp add: allToolsConnected_def disconnectedToolsList_def filter_empty_conv)

lemma fire_cases:
  assumes "i < length (timers s)"
  obtains d g cb ts' where "(d, g, cb) \<in> set (timers s)" and "set ts' \<subseteq> set (timers s)"
    and "fire c i s = run_callback c g cb (s\<lparr>timers := ts', clock := max (clock s) d\<rparr>)"
proof -
  let ?ts' = "take i (timers s) @ drop (Suc i) (timers s)"
  obtain d g cb where dc: "timers s ! i = (d, g, cb)" by (cases "timers s ! i")
  have "set ?ts' \<subseteq> set (timers s)"
    using set_take_subset [of i "timers s"] set_drop_subset [of "Suc i" "timers s"] by auto
  moreover have "(d, g, cb) \<in> set (timers s)"
    using assms dc nth_mem [of i "timers s"] by simp
  moreover have "fire c i s = run_callback c g cb (s\<lparr>timers := ?ts', clock := max (clock s) d\<rparr>)"
    using assms dc by (simp add: fire_def)
  ultimately show ?thesis using that by blast
qed

lemma run_callback_timers:
  "timers (run_callback c g cb s) = timers s @
     (case cb of
        ConnectToolSettled_000 a \<Rightarrow> [(clock s + 1000, g, ConfigurePermissions_000)]
      | ConfigurePermissions_000 \<Rightarrow> [(clock s + 1500, g, PermissionsConfigured_000)]
      | PermissionsConfigured_000 \<Rightarrow> [(clock s + 1000, g, TestWorkflow_000)]
      | TestWorkflow_000 \<Rightarrow> [(clock s + 2000, g, TestFinished_000)]
      | TestFinished_000 \<Rightarrow> [(clock s + 500, g, SuccessAlert_000)]
      | SetupConnected_001 \<Rightarrow> [(clock s + 1000, g, SetupPermissions_001)]
      | SetupPermissions_001 \<Rightarrow> [(clock s + 1500, g, SetupPermissionsDone_001)]
      | SetupPermissionsDone_001 \<Rightarrow> [(clock s + 1000, g, SetupTest_001)]
      | SetupTest_001 \<Rightarrow> [(clock s + 2000, g, SetupTestDone_001)]
      | SetupTestDone_001 \<Rightarrow> [(clock s + 500, g, SetupSuccess_001)]
      | _ \<Rightarrow> [])"
  by (cases cb) (simp_all add: callback_defs Let_def)

lemma run_callback_mounted:
  "mounted (run_callback c g cb s) =
     (case cb of
        BotReply inp \<Rightarrow> mounted s + 1
      | ConnectToolSettled_000 a \<Rightarrow> mounted s + 1
      | ConnectToolSettled_001 a dl \<Rightarrow> mounted s + 1
      | SetupSuccess_001 \<Rightarrow> mounted s + 1
      | _ \<Rightarrow> mounted s)"
  by (cases cb) (simp_all add: callback_defs Let_def)

lemma run_callback_statuses:
  "stepStatuses (run_callback c g cb s) =
     (case cb of
        BotReply inp \<Rightarrow> initialStatuses
      | ConnectToolSettled_000 a \<Rightarrow> initialStatuses
      | ConnectToolSettled_001 a dl \<Rightarrow> initialStatuses
      | SetupSuccess_001 \<Rightarrow> initialStatuses
      | SuccessAlert_000 \<Rightarrow> stepStatuses s
      | ConfigurePermissions_000 \<Rightarrow>
          (if g = mounted s then (stepStatuses s)\<lparr>permissions := Loading\<rparr> else stepStatuses s)
      | PermissionsConfigured_000 \<Rightarrow>
          (if g = mounted s then (stepStatuses s)\<lparr>permissions := Completed\<rparr> else stepStatuses s)
      | TestWorkflow_000 \<Rightarrow>
          (if g = mounted s then (stepStatuses s)\<lparr>test := Loading\<rparr> else stepStatuses s)
      | TestFinished_000 \<Rightarrow>
          (if g = mounted s then (stepStatuses s)\<lparr>test := Completed\<rparr> else stepStatuses s)
      | SetupConnected_001 \<Rightarrow>
          (if g = mounted s then (stepStatuses s)\<lparr>connect := Completed\<rparr> else stepStatuses s)
      | SetupPermissions_001 \<Rightarrow>
          (if g = mounted s then (stepStatuses s)\<lparr>permissions := Loading\<rparr> else stepStatuses s)
      | SetupPermissionsDone_001 \<Rightarrow>
          (if g = mounted s then (stepStatuses s)\<lparr>permissions := Completed\<rparr> else stepStatuses s)
      | SetupTest_001 \<Rightarrow>
          (if g = mounted s then (stepStatuses s)\<lparr>test := Loading\<rparr> else stepStatuses s)
      | SetupTestDone_001 \<Rightarrow>
          (if g = mounted s then (stepStatuses s)\<lparr>test := Completed\<rparr> else stepStatuses s))"
  by (cases cb) (simp_all add: callback_defs Let_def)

lemma connect_guarded_fire:
  assumes "connect_guarded sg s"
  shows "connect_guarded sg (fire c i s)"
proof (cases "i < length (timers s)")
  case False
  then show ?thesis using assms by (simp add: fire_def)
next
  case True
  then obtain d g cb ts' where in_ts: "(d, g, cb) \<in> set (timers s)"
    and sub: "set ts' \<subseteq> set (timers s)"
    and f: "fire c i s = run_callback c g cb (s\<lparr>timers := ts', clock := max (clock s) d\<rparr>)"
    by (rule fire_cases)
  from assms have le: "\<And>p. p \<in> set (timers s) \<Longrightarrow> fst (snd p) \<le> mounted s"
    and ok: "connect (stepStatuses s) = Completed
             \<or> (\<exists>p \<in> set (timers s). fst (snd p) = mounted s \<and> snd (snd p) = SetupConnected_001)
             \<Longrightarrow> \<forall>t \<in> set (tools sg). connectedTools s t = Some True"
    by (simp_all add: connect_guarded_def allToolsConnected_iff)
  from le [OF in_ts] have g: "g \<le> mounted s" by simp
  from sub le have le': "\<And>p. p \<in> set ts' \<Longrightarrow> fst (snd p) \<le> mounted s" by blast
  have ok': "\<forall>t \<in> set (tools sg). connectedTools s t = Some True"
    if "\<exists>p \<in> set ts'. fst (snd p) = mounted s \<and> snd (snd p) = SetupConnected_001"
    using that sub ok by blast
  have ok_cb: "\<forall>t \<in> set (tools sg). connectedTools s t = Some True"
    if "g = mounted s" "cb = SetupConnected_001"
    using that in_ts ok by force
  show ?thesis
    unfolding f connect_guarded_def allToolsConnected_iff
      run_callback_timers run_callback_statuses run_callback_connectedTools run_callback_mounted
    using g le' ok ok' ok_cb
    by (cases cb) (simp_all add: initialStatuses_def, (force | blast)+)
qed

lemmas eval_defs =
  handler_defs callback_defs fire_def init_state_def initialTools_def initialStatuses_def
  disconnectedToolsList_def allToolsConnected_def to_text_def js_or_def first_def
  prefilledWorkflows_def dailyStandup_def emailToWhatsApp_def Let_def

section \<open>The tool map only grows\<close>

text \<open>
  C9. In every version of the component and from any state, the only operation that
  changes the tool map is the firing of \<^verbatim>\<open>connectTool\<close>'s timer, which sets the flag of
  its tool to true. So along every sequence of operations a flag that is true stays true
  and no entry disappears.
\<close>

theorem connectedTools_monotone:
  "(connectedTools s t = Some True \<longrightarrow> connectedTools (exec c sg evs s) t = Some True)
   \<and> (t \<in> dom (connectedTools s) \<longrightarrow> t \<in> dom (connectedTools (exec c sg evs s)))
   \<and> (connectedTools (apply_event c sg e s) \<noteq> connectedTools s \<longrightarrow>
        (\<exists>i a. e = Fire i \<and> i < length (timers s)
           \<and> (snd (snd (timers s ! i)) = ConnectToolSettled_000 a
               \<or> (\<exists>dl. snd (snd (timers s ! i)) = ConnectToolSettled_001 a dl))
           \<and> connectedTools (apply_event c sg e s) = (connectedTools s)(to_text a \<mapsto> True)))"
proof -
  have "\<exists>i a. e = Fire i \<and> i < length (timers s)
           \<and> (snd (snd (timers s ! i)) = ConnectToolSettled_000 a
               \<or> (\<exists>dl. snd (snd (timers s ! i)) = ConnectToolSettled_001 a dl))
           \<and> connectedTools (apply_event c sg e s) = (connectedTools s)(to_text a \<mapsto> True)"
    if "connectedTools (apply_event c sg e s) \<noteq> connectedTools s"
    using that
    by (auto simp add: apply_event_connectedTools split: event.splits callback.splits if_splits)
  then show ?thesis
    by (simp add: exec_keeps_true exec_keeps_dom)
qed

theorem connectedTools_monotone_witness:
  "connectedTools (exec Part001 emailToWhatsApp [ConnectTool (Some ''Gmail''), Fire 0]
      (init_state Part001 0)) ''Gmail'' = Some True
   \<and> connectedTools
        (exec Part001 emailToWhatsApp [ConnectWorkflow, Fire 0, EditWorkflow, SendMessage]
          (exec Part001 emailToWhatsApp [ConnectTool (Some ''Gmail''), Fire 0]
            (init_state Part001 0))) ''Gmail'' = Some True"
proof -
  have h: "connectedTools (exec Part001 emailToWhatsApp [ConnectTool (Some ''Gmail''), Fire 0]
      (init_state Part001 0)) ''Gmail'' = Some True"
    by (simp add: eval_defs)
  from connectedTools_monotone [where t = "''Gmail''" and c = Part001 and sg = emailToWhatsApp
      and evs = "[ConnectWorkflow, Fire 0, EditWorkflow, SendMessage]"
      and s = "exec Part001 emailToWhatsApp [ConnectTool (Some ''Gmail''), Fire 0]
            (init_state Part001 0)"] h
  show ?thesis by blast
qed

section \<open>When the connect stage completes\<close>

lemma connect_guardedI:
  assumes "\<And>p. p \<in> set (timers t) \<Longrightarrow> fst (snd p) < mounted t"
    and "connect (stepStatuses t) \<noteq> Completed"
  shows "connect_guarded sg t"
  using assms by (fastforce simp add: connect_guarded_def)

lemma connect_guarded_remount:
  assumes "connect_guarded sg s" and "timers t = timers s" and "mounted t = mounted s"
  shows "connect_guarded sg (remount t)"
proof (rule connect_guardedI)
  fix p assume "p \<in> set (timers (remount t))"
  with assms show "fst (snd p) < mounted (remount t)"
    by (fastforce simp add: connect_guarded_def remount_def)
qed (simp add: remount_def initialStatuses_def)

lemma connect_guarded_step:
  assumes "connect_guarded sg s"
  shows "connect_guarded sg (apply_event c sg e s)"
proof (cases e)
  case (Fire i)
  then show ?thesis using assms by (simp add: connect_guarded_fire)
next
  case (SetInput v)
  then show ?thesis using assms by (simp add: connect_guarded_remount)
next
  case SendMessage
  have "connect_guarded sg (handleSendMessage c s)"
  proof (cases "trim (input s) = []")
    case True
    then show ?thesis using assms by (simp add: handleSendMessage_def)
  next
    case False
    show ?thesis
    proof (rule connect_guardedI)
      fix p assume "p \<in> set (timers (handleSendMessage c s))"
      with assms False show "fst (snd p) < mounted (handleSendMessage c s)"
        by (fastforce simp add: connect_guarded_def handleSendMessage_def setTimeout_def
            remount_def)
    qed (use False in \<open>simp add: handleSendMessage_def setTimeout_def remount_def
           initialStatuses_def\<close>)
  qed
  with SendMessage show ?thesis by simp
next
  case (PrefilledWorkflow w)
  then show ?thesis using assms
    by (cases c) (simp_all add: handlePrefilledWorkflow_def bot_says_def connect_guarded_remount)
next
  case ConnectWorkflow
  have a: "connect_guarded sg (handleConnectWorkflow_000 sg s)"
  proof (cases "allToolsConnected sg s")
    case True
    then show ?thesis using assms
      by (simp add: handleConnectWorkflow_000_def connect_guarded_def allToolsConnected_iff)
  next
    case False
    then have ne: "disconnectedToolsList sg s \<noteq> []" by (simp add: allToolsConnected_def)
    then obtain n where pos: "length (disconnectedToolsList sg s) = Suc n"
      by (cases "disconnectedToolsList sg s") simp_all
    show ?thesis
    proof (rule connect_guardedI)
      fix p assume "p \<in> set (timers (handleConnectWorkflow_000 sg s))"
      with False have "p \<in> set (timers s)" by (simp add: handleConnectWorkflow_000_def)
      with assms have "fst (snd p) \<le> mounted s" by (simp add: connect_guarded_def)
      with False show "fst (snd p) < mounted (handleConnectWorkflow_000 sg s)"
        by (simp add: handleConnectWorkflow_000_def pos)
    qed (use False ne in \<open>simp add: handleConnectWorkflow_000_def fold_suggest_statuses
           initialStatuses_def\<close>)
  qed
  have b: "connect_guarded sg (handleConnectWorkflow_001 sg s)"
    using assms
    by (auto simp add: connect_guarded_def handleConnectWorkflow_001_def
        handleConnectTool_001_def setTimeout_def allToolsConnected_iff Let_def)
  from ConnectWorkflow a b assms show ?thesis by (cases c) simp_all
next
  case (ConnectTool a)
  have "connect_guarded sg (handleConnectTool_000 sg a s)"
    and "connect_guarded sg (handleConnectTool_001 sg a s)"
    using assms
    by (auto simp add: connect_guarded_def handleConnectTool_000_def
        handleConnectTool_001_def setTimeout_def allToolsConnected_iff Let_def)
  with ConnectTool assms show ?thesis by (cases c) simp_all
next
  case EditWorkflow
  then show ?thesis using assms
    by (cases c)
      (simp_all add: handleEditWorkflow_000_def handleEditWorkflow_001_def bot_says_def
         connect_guarded_remount)
next
  case ViewDashboard
  then show ?thesis using assms
    by (cases c)
      (simp_all add: handleViewDashboard_000_def handleViewDashboard_001_def bot_says_def
         connect_guarded_remount)
next
  case (SetShowDashboard b)
  then show ?thesis using assms by (cases c) (simp_all add: connect_guarded_remount)
next
  case (Tick d)
  then show ?thesis using assms
    by (simp add: connect_guarded_def allToolsConnected_iff)
qed

lemma connect_guarded_exec:
  "connect_guarded sg s \<Longrightarrow> connect_guarded sg (exec c sg evs s)"
  by (induction evs arbitrary: s) (simp_all add: connect_guarded_step)

lemma never_completed_step:
  assumes "\<forall>p \<in> set (timers s). snd (snd p) \<noteq> SetupConnected_001"
    and "connect (stepStatuses s) \<noteq> Completed"
  shows "(\<forall>p \<in> set (timers (apply_event Part000a sg e s)). snd (snd p) \<noteq> SetupConnected_001)
       \<and> connect (stepStatuses (apply_event Part000a sg e s)) \<noteq> Completed"
proof (cases e)
  case (Fire i)
  show ?thesis
  proof (cases "i < length (timers s)")
    case False
    then show ?thesis using assms Fire by (simp add: fire_def)
  next
    case True
    then obtain d g cb ts' where in_ts: "(d, g, cb) \<in> set (timers s)"
      and sub: "set ts' \<subseteq> set (timers s)"
      and f: "fire Part000a i s =
                run_callback Part000a g cb (s\<lparr>timers := ts', clock := max (clock s) d\<rparr>)"
      by (rule fire_cases)
    from in_ts assms(1) have ne: "cb \<noteq> SetupConnected_001" by force
    from sub assms(1) have sub': "\<forall>p \<in> set ts'. snd (snd p) \<noteq> SetupConnected_001" by blast
    show ?thesis
      unfolding Fire apply_event.simps f run_callback_timers run_callback_statuses
      using ne sub' assms(2)
      by (cases cb) (simp_all add: initialStatuses_def)
  qed
next
  case ConnectWorkflow
  show ?thesis
  proof (cases "allToolsConnected sg s")
    case True
    then show ?thesis using assms ConnectWorkflow by (simp add: handleConnectWorkflow_000_def)
  next
    case False
    then have "disconnectedToolsList sg s \<noteq> []" by (simp add: allToolsConnected_def)
    with False show ?thesis using assms ConnectWorkflow
      by (simp add: handleConnectWorkflow_000_def fold_suggest_statuses initialStatuses_def)
  qed
qed (use assms in \<open>simp_all add: handler_defs setTimeout_def bot_says_def remount_def
       initialStatuses_def Let_def\<close>)

lemma never_completed_exec:
  assumes "\<forall>p \<in> set (timers s). snd (snd p) \<noteq> SetupConnected_001"
    and "connect (stepStatuses s) \<noteq> Completed"
  shows "(\<forall>p \<in> set (timers (exec Part000a sg evs s)). snd (snd p) \<noteq> SetupConnected_001)
       \<and> connect (stepStatuses (exec Part000a sg evs s)) \<noteq> Completed"
  using assms
proof (induction evs arbitrary: s)
  case Nil
  then show ?case by simp
next
  case (Cons e evs)
  from never_completed_step [OF Cons.prems]
  have "(\<forall>p \<in> set (timers (apply_event Part000a sg e s)). snd (snd p) \<noteq> SetupConnected_001)"
    and "connect (stepStatuses (apply_event Part000a sg e s)) \<noteq> Completed"
    by blast+
  from Cons.IH [OF this] show ?case by simp
qed

text \<open>
  C1. Start from any state in which no timer is pending and the connect stage is not
  completed, whatever the tool map is; the state a page load gives is one. Then in every
  version of the component, in every state reached by any sequence of operations, the
  connect stage of the card on the page is completed only if every tool of the suggestion
  is mapped to true: a required tool that is not connected keeps the stage from being
  completed. In \<^verbatim>\<open>part_001\<close> the stage is completed by the first timer of
  \<^verbatim>\<open>handleConnectWorkflow\<close>, which is set only when all tools are connected. In the first
  component of \<^verbatim>\<open>part_000\<close> the write of "completed" follows
  \<^verbatim>\<open>setConnectedTools\<close>, whose render has replaced the card by then, so the connect stage
  of the card on the page is never completed there.
\<close>

theorem connect_completed_requires_tools:
  assumes "timers s = []" and "connect (stepStatuses s) \<noteq> Completed"
  shows "(connect (stepStatuses (exec c sg evs s)) = Completed \<longrightarrow>
            (\<forall>t \<in> set (tools sg). connectedTools (exec c sg evs s) t = Some True))
       \<and> connect (stepStatuses (exec Part000a sg evs s)) \<noteq> Completed"
proof -
  from assms have "connect_guarded sg s" by (simp add: connect_guarded_def)
  then have "connect_guarded sg (exec c sg evs s)" by (rule connect_guarded_exec)
  then have a: "connect (stepStatuses (exec c sg evs s)) = Completed \<longrightarrow>
      (\<forall>t \<in> set (tools sg). connectedTools (exec c sg evs s) t = Some True)"
    by (simp add: connect_guarded_def allToolsConnected_iff)
  from assms have "\<forall>p \<in> set (timers s). snd (snd p) \<noteq> SetupConnected_001" by simp
  from never_completed_exec [OF this assms(2)] a show ?thesis by blast
qed

theorem connect_completed_requires_tools_witness:
  "timers (init_state Part001 0) = []
   \<and> connect (stepStatuses (init_state Part001 0)) \<noteq> Completed
   \<and> connect (stepStatuses (exec Part001 dailyStandup [ConnectWorkflow, Fire 0]
        (init_state Part001 0))) = Completed
   \<and> connectedTools (exec Part001 dailyStandup [ConnectWorkflow, Fire 0] (init_state Part001 0))
       ''Slack'' = Some True
   \<and> connect (stepStatuses (exec Part000a emailToWhatsApp [ConnectTool (Some ''Gmail''), Fire 0]
        (init_state Part000a 0))) \<noteq> Completed"
proof -
  have t: "timers (init_state Part001 0) = []" "timers (init_state Part000a 0) = []"
    by (simp_all add: init_state_def)
  have n: "connect (stepStatuses (init_state Part001 0)) \<noteq> Completed"
    "connect (stepStatuses (init_state Part000a 0)) \<noteq> Completed"
    by (simp_all add: init_state_def initialStatuses_def)
  have c: "connect (stepStatuses (exec Part001 dailyStandup [ConnectWorkflow, Fire 0]
             (init_state Part001 0))) = Completed"
    by (simp add: eval_defs)
  have s: "''Slack'' \<in> set (tools dailyStandup)"
    by (simp add: eval_defs)
  from connect_completed_requires_tools [OF t(1) n(1), of Part001 dailyStandup
      "[ConnectWorkflow, Fire 0]"] c s
  have "connectedTools (exec Part001 dailyStandup [ConnectWorkflow, Fire 0] (init_state Part001 0))
       ''Slack'' = Some True" by blast
  moreover from connect_completed_requires_tools [OF t(2) n(2), of Part000a emailToWhatsApp
      "[ConnectTool (Some ''Gmail''), Fire 0]"]
  have "connect (stepStatuses (exec Part000a emailToWhatsApp [ConnectTool (Some ''Gmail''), Fire 0]
        (init_state Part000a 0))) \<noteq> Completed" by blast
  ultimately show ?thesis using t n c by simp
qed

section \<open>The staging run\<close>

lemma earliest_less: "ts \<noteq> [] \<Longrightarrow> earliest ts < length ts"
  by (induction ts rule: earliest.induct) (simp_all add: Let_def)

lemma sum_list_remove_nth:
  assumes "i < length ts"
  shows "sum_list (map f ts) = sum_list (map f (take i ts @ drop (Suc i) ts)) + (f (ts ! i) :: nat)"
proof -
  have "ts = take i ts @ ts ! i # drop (Suc i) ts"
    using assms by (rule id_take_nth_drop)
  then have "sum_list (map f ts) = sum_list (map f (take i ts @ ts ! i # drop (Suc i) ts))"
    by (rule arg_cong [where f = "\<lambda>x. sum_list (map f x)"])
  also have "\<dots> = sum_list (map f (take i ts @ drop (Suc i) ts)) + f (ts ! i)"
    by simp
  finally show ?thesis .
qed

lemma work_positive: "0 < work cb"
  by (cases cb) simp_all

lemma pending_work_fire:
  assumes "i < length (timers s)"
  shows "pending_work (fire c i s) < pending_work s"
proof -
  let ?ts' = "take i (timers s) @ drop (Suc i) (timers s)"
  let ?cb = "snd (snd (timers s ! i))"
  have "pending_work (fire c i s) + work ?cb
        < sum_list (map (\<lambda>p. work (snd (snd p))) ?ts') + work ?cb + work ?cb"
    using assms work_positive [of ?cb]
    by (cases ?cb) (simp_all add: fire_def pending_work_def run_callback_timers
          del: run_callback.simps)
  moreover have "pending_work s = sum_list (map (\<lambda>p. work (snd (snd p))) ?ts') + work ?cb"
    unfolding pending_work_def using assms by (rule sum_list_remove_nth)
  ultimately show ?thesis by simp
qed

lemma pending_work_zero: "pending_work s = 0 \<Longrightarrow> timers s = []"
proof (cases "timers s")
  case Nil
  then show ?thesis by simp
next
  case (Cons p ps)
  assume "pending_work s = 0"
  with Cons work_positive [of "snd (snd p)"] show ?thesis by (simp add: pending_work_def)
qed

lemma run_for_drains:
  "pending_work s \<le> n \<Longrightarrow> timers (last (s # run_for n c s)) = []"
proof (induction n arbitrary: s)
  case 0
  then show ?case by (simp add: pending_work_zero)
next
  case (Suc n)
  show ?case
  proof (cases "timers s = []")
    case True
    then show ?thesis by simp
  next
    case False
    let ?s' = "fire c (earliest (timers s)) s"
    from False have "earliest (timers s) < length (timers s)" by (rule earliest_less)
    then have "pending_work ?s' < pending_work s" by (rule pending_work_fire)
    with Suc.prems have "pending_work ?s' \<le> n" by simp
    then have "timers (last (?s' # run_for n c ?s')) = []" by (rule Suc.IH)
    with False show ?thesis by simp
  qed
qed

text \<open>Whatever is pending, \<open>run\<close> empties the queue: every run of the timers ends.\<close>

lemma run_drains: "timers (last (s # run c s)) = []"
  unfolding run_def by (rule run_for_drains) simp

lemma run_for_step:
  "timers s = [] \<Longrightarrow> run_for n c s = []"
  "timers s \<noteq> [] \<Longrightarrow> 0 < n \<Longrightarrow>
     run_for n c s = fire c (earliest (timers s)) s # run_for (n - 1) c (fire c (earliest (timers s)) s)"
  by (cases n; simp)+

text \<open>
  What a staging run does from a card at rest (all stages pending, no timer pending,
  every tool of the suggestion connected). In \<^verbatim>\<open>part_001\<close> the stages go through the
  seven settings from loading, pending, pending to all completed, which is reached after
  6500 ms; the last callback, 500 ms later, appends the success message, and the render
  that follows puts a new card on the page, all of whose stages are pending. In the first
  component of \<^verbatim>\<open>part_000\<close> the run is started by \<^verbatim>\<open>handleConnectTool()\<close>; the render
  that follows \<^verbatim>\<open>setConnectedTools\<close> after 2000 ms replaces the card, and the rest of the
  timer chain writes to the card that is gone and ends with the alert.
\<close>

lemma quiet_staging_trace:
  assumes "allToolsConnected sg s" and "stepStatuses s = initialStatuses" and "timers s = []"
  shows "map stepStatuses
           (s # handleConnectWorkflow_001 sg s # run Part001 (handleConnectWorkflow_001 sg s)) =
         [\<lparr>connect = Pending, permissions = Pending, test = Pending\<rparr>,
          \<lparr>connect = Loading, permissions = Pending, test = Pending\<rparr>,
          \<lparr>connect = Completed, permissions = Pending, test = Pending\<rparr>,
          \<lparr>connect = Completed, permissions = Loading, test = Pending\<rparr>,
          \<lparr>connect = Completed, permissions = Completed, test = Pending\<rparr>,
          \<lparr>connect = Completed, permissions = Completed, test = Loading\<rparr>,
          \<lparr>connect = Completed, permissions = Completed, test = Completed\<rparr>,
          \<lparr>connect = Pending, permissions = Pending, test = Pending\<rparr>]
     \<and> map clock (run Part001 (handleConnectWorkflow_001 sg s)) =
         [clock s + 1000, clock s + 2000, clock s + 3500, clock s + 4500, clock s + 6500,
          clock s + 7000]
     \<and> timers (last (run Part001 (handleConnectWorkflow_001 sg s))) = []
     \<and> map stepStatuses
           (s # handleConnectTool_000 sg None s # run Part000a (handleConnectTool_000 sg None s)) =
         [\<lparr>connect = Pending, permissions = Pending, test = Pending\<rparr>,
          \<lparr>connect = Loading, permissions = Pending, test = Pending\<rparr>,
          \<lparr>connect = Pending, permissions = Pending, test = Pending\<rparr>,
          \<lparr>connect = Pending, permissions = Pending, test = Pending\<rparr>,
          \<lparr>connect = Pending, permissions = Pending, test = Pending\<rparr>,
          \<lparr>connect = Pending, permissions = Pending, test = Pending\<rparr>,
          \<lparr>connect = Pending, permissions = Pending, test = Pending\<rparr>,
          \<lparr>connect = Pending, permissions = Pending, test = Pending\<rparr>]
     \<and> map clock (run Part000a (handleConnectTool_000 sg None s)) =
         [clock s + 2000, clock s + 3000, clock s + 4500, clock s + 5500, clock s + 7500,
          clock s + 8000]
     \<and> timers (last (run Part000a (handleConnectTool_000 sg None s))) = []
     \<and> alerts (last (run Part000a (handleConnectTool_000 sg None s))) =
         alerts s @ [activated_text]"
proof -
  from assms(1) have dl: "disconnectedToolsList sg s = []"
    by (simp add: allToolsConnected_def)
  have a: "handleConnectWorkflow_001 sg s =
      s\<lparr>showSetupSteps := True, currentStep := 1,
        stepStatuses := \<lparr>connect = Loading, permissions = Pending, test = Pending\<rparr>,
        timers := [(clock s + 1000, mounted s, SetupConnected_001)]\<rparr>"
    using assms by (simp add: handleConnectWorkflow_001_def setTimeout_def)
  have b: "handleConnectTool_000 sg None s =
      s\<lparr>isConnecting := True, connectingTool := None,
        stepStatuses := \<lparr>connect = Loading, permissions = Pending, test = Pending\<rparr>,
        timers := [(clock s + 2000, mounted s, ConnectToolSettled_000 None)]\<rparr>"
    using assms dl
    by (simp add: handleConnectTool_000_def setTimeout_def js_or_def first_def
        initialStatuses_def)
  show ?thesis
    unfolding a b
    using assms(2)
    by (simp add: run_def pending_work_def run_for_step fire_def callback_defs
        initialStatuses_def)
qed

text \<open>
  C2. A staging run is to end with all three stages completed and no stage is to move
  backward during it. The code shows that this is what it is after: the card offers View
  Dashboard and Edit Workflow once the test stage is completed, and \<^verbatim>\<open>part_001\<close> logs
  "stepStatuses should be: test completed" and prints the test stage in a debug line. It
  does not get there. On the card of the prefilled Slack stand-up workflow (Slack is
  connected from the start) pressing Set Up Workflow in \<^verbatim>\<open>part_001\<close> takes the stages
  to all completed after 6500 ms, and 500 ms later the success message puts a new card on
  the page: the run ends with all stages pending. In the first component of \<^verbatim>\<open>part_000\<close>
  pressing Set Up Workflow and then Connect in the setup panel shows the connect stage
  loading for 2000 ms and pending from then on, until the alert after 8000 ms.
\<close>

theorem staging_run_ends_pending:
  "valid Part001 dailyStandup [ConnectWorkflow] (init_state Part001 0)
   \<and> map stepStatuses
       (exec Part001 dailyStandup [ConnectWorkflow] (init_state Part001 0)
        # run Part001 (exec Part001 dailyStandup [ConnectWorkflow] (init_state Part001 0))) =
       [\<lparr>connect = Loading, permissions = Pending, test = Pending\<rparr>,
        \<lparr>connect = Completed, permissions = Pending, test = Pending\<rparr>,
        \<lparr>connect = Completed, permissions = Loading, test = Pending\<rparr>,
        \<lparr>connect = Completed, permissions = Completed, test = Pending\<rparr>,
        \<lparr>connect = Completed, permissions = Completed, test = Loading\<rparr>,
        \<lparr>connect = Completed, permissions = Completed, test = Completed\<rparr>,
        \<lparr>connect = Pending, permissions = Pending, test = Pending\<rparr>]
   \<and> map clock (run Part001 (exec Part001 dailyStandup [ConnectWorkflow] (init_state Part001 0))) =
       [1000, 2000, 3500, 4500, 6500, 7000]
   \<and> timers (last (run Part001
        (exec Part001 dailyStandup [ConnectWorkflow] (init_state Part001 0)))) = []
   \<and> valid Part000a dailyStandup [ConnectWorkflow, ConnectTool None] (init_state Part000a 0)
   \<and> map stepStatuses
       (exec Part000a dailyStandup [ConnectWorkflow, ConnectTool None] (init_state Part000a 0)
        # run Part000a
            (exec Part000a dailyStandup [ConnectWorkflow, ConnectTool None]
               (init_state Part000a 0))) =
       [\<lparr>connect = Loading, permissions = Pending, test = Pending\<rparr>,
        \<lparr>connect = Pending, permissions = Pending, test = Pending\<rparr>,
        \<lparr>connect = Pending, permissions = Pending, test = Pending\<rparr>,
        \<lparr>connect = Pending, permissions = Pending, test = Pending\<rparr>,
        \<lparr>connect = Pending, permissions = Pending, test = Pending\<rparr>,
        \<lparr>connect = Pending, permissions = Pending, test = Pending\<rparr>,
        \<lparr>connect = Pending, permissions = Pending, test = Pending\<rparr>]
   \<and> map clock (run Part000a
        (exec Part000a dailyStandup [ConnectWorkflow, ConnectTool None]
           (init_state Part000a 0))) =
       [2000, 3000, 4500, 5500, 7500, 8000]
   \<and> alerts (last (run Part000a
        (exec Part000a dailyStandup [ConnectWorkflow, ConnectTool None]
           (init_state Part000a 0)))) = [activated_text]"
proof -
  let ?s1 = "init_state Part001 0"
  let ?s0 = "exec Part000a dailyStandup [ConnectWorkflow] (init_state Part000a 0)"
  have h1: "allToolsConnected dailyStandup ?s1" "stepStatuses ?s1 = initialStatuses"
    "timers ?s1 = []" "clock ?s1 = 0"
    by (simp_all add: eval_defs)
  have h0: "allToolsConnected dailyStandup ?s0" "stepStatuses ?s0 = initialStatuses"
    "timers ?s0 = []" "clock ?s0 = 0" "alerts ?s0 = []"
    by (simp_all add: eval_defs)
  have v1: "valid Part001 dailyStandup [ConnectWorkflow] (init_state Part001 0)"
    by (simp add: eval_defs)
  have v0: "valid Part000a dailyStandup [ConnectWorkflow, ConnectTool None] (init_state Part000a 0)"
    by (simp add: eval_defs)
  have e1: "exec Part001 dailyStandup [ConnectWorkflow] (init_state Part001 0) =
              handleConnectWorkflow_001 dailyStandup ?s1"
    by simp
  have e0: "exec Part000a dailyStandup [ConnectWorkflow, ConnectTool None] (init_state Part000a 0) =
              handleConnectTool_000 dailyStandup None ?s0"
    by simp
  from quiet_staging_trace [OF h1(1-3)] quiet_staging_trace [OF h0(1-3)] v1 v0
  show ?thesis unfolding e1 e0 h1(4) h0(4,5) by simp
qed

section \<open>Editing the workflow\<close>

text \<open>
  C8. Editing resets the three stages and \<open>currentStep\<close>, and is to be the only
  operation that moves a stage backward. The reset holds in both sequencers, from any
  state. The rest does not: every render of \<^verbatim>\<open>ChatInterface\<close> puts a new card on the
  page. In \<^verbatim>\<open>part_001\<close>, once the stages of the Slack stand-up card are all completed,
  typing one character into the chat input puts them all back to pending; so does the
  View Dashboard button, and so does the success message of the run itself. In the first
  component of \<^verbatim>\<open>part_000\<close> the connect stage goes from loading back to pending when the
  timer of \<^verbatim>\<open>connectTool\<close> fires. None of these is an edit.
\<close>

theorem stages_reset_without_edit:
  "stepStatuses (handleEditWorkflow_000 s) =
     \<lparr>connect = Pending, permissions = Pending, test = Pending\<rparr>
   \<and> currentStep (handleEditWorkflow_000 s) = 1
   \<and> stepStatuses (handleEditWorkflow_001 s) =
     \<lparr>connect = Pending, permissions = Pending, test = Pending\<rparr>
   \<and> currentStep (handleEditWorkflow_001 s) = 1
   \<and> valid Part001 dailyStandup [ConnectWorkflow, Fire 0, Fire 0, Fire 0, Fire 0, Fire 0]
       (init_state Part001 0)
   \<and> stepStatuses (exec Part001 dailyStandup
        [ConnectWorkflow, Fire 0, Fire 0, Fire 0, Fire 0, Fire 0] (init_state Part001 0)) =
       \<lparr>connect = Completed, permissions = Completed, test = Completed\<rparr>
   \<and> enabled Part001 dailyStandup (SetInput ''a'')
        (exec Part001 dailyStandup
           [ConnectWorkflow, Fire 0, Fire 0, Fire 0, Fire 0, Fire 0] (init_state Part001 0))
   \<and> stepStatuses (apply_event Part001 dailyStandup (SetInput ''a'')
        (exec Part001 dailyStandup
           [ConnectWorkflow, Fire 0, Fire 0, Fire 0, Fire 0, Fire 0] (init_state Part001 0))) =
       \<lparr>connect = Pending, permissions = Pending, test = Pending\<rparr>
   \<and> \<not> forward
        (stepStatuses (exec Part001 dailyStandup
           [ConnectWorkflow, Fire 0, Fire 0, Fire 0, Fire 0, Fire 0] (init_state Part001 0)))
        (stepStatuses (apply_event Part001 dailyStandup (SetInput ''a'')
           (exec Part001 dailyStandup
              [ConnectWorkflow, Fire 0, Fire 0, Fire 0, Fire 0, Fire 0] (init_state Part001 0))))
   \<and> enabled Part001 dailyStandup ViewDashboard
        (exec Part001 dailyStandup
           [ConnectWorkflow, Fire 0, Fire 0, Fire 0, Fire 0, Fire 0] (init_state Part001 0))
   \<and> stepStatuses (apply_event Part001 dailyStandup ViewDashboard
        (exec Part001 dailyStandup
           [ConnectWorkflow, Fire 0, Fire 0, Fire 0, Fire 0, Fire 0] (init_state Part001 0))) =
       \<lparr>connect = Pending, permissions = Pending, test = Pending\<rparr>
   \<and> enabled Part001 dailyStandup (Fire 0)
        (exec Part001 dailyStandup
           [ConnectWorkflow, Fire 0, Fire 0, Fire 0, Fire 0, Fire 0] (init_state Part001 0))
   \<and> stepStatuses (apply_event Part001 dailyStandup (Fire 0)
        (exec Part001 dailyStandup
           [ConnectWorkflow, Fire 0, Fire 0, Fire 0, Fire 0, Fire 0] (init_state Part001 0))) =
       \<lparr>connect = Pending, permissions = Pending, test = Pending\<rparr>
   \<and> valid Part000a dailyStandup [ConnectWorkflow, ConnectTool None, Fire 0]
       (init_state Part000a 0)
   \<and> connect (stepStatuses (exec Part000a dailyStandup [ConnectWorkflow, ConnectTool None]
        (init_state Part000a 0))) = Loading
   \<and> connect (stepStatuses (exec Part000a dailyStandup [ConnectWorkflow, ConnectTool None, Fire 0]
        (init_state Part000a 0))) = Pending"
proof -
  have reset:
    "stepStatuses (handleEditWorkflow_000 s) =
       \<lparr>connect = Pending, permissions = Pending, test = Pending\<rparr>
     \<and> currentStep (handleEditWorkflow_000 s) = 1
     \<and> stepStatuses (handleEditWorkflow_001 s) =
       \<lparr>connect = Pending, permissions = Pending, test = Pending\<rparr>
     \<and> currentStep (handleEditWorkflow_001 s) = 1"
    by (simp add: handleEditWorkflow_000_def handleEditWorkflow_001_def bot_says_def
        remount_def initialStatuses_def)
  have done_001:
    "exec Part001 dailyStandup [ConnectWorkflow, Fire 0, Fire 0, Fire 0, Fire 0, Fire 0]
       (init_state Part001 0) =
     (init_state Part001 0)
       \<lparr>showSetupSteps := True, currentStep := 3,
        stepStatuses := \<lparr>connect = Completed, permissions = Completed, test = Completed\<rparr>,
        clock := 6500, timers := [(7000, 0, SetupSuccess_001)]\<rparr>"
    by (simp add: eval_defs)
  have v1: "valid Part001 dailyStandup [ConnectWorkflow, Fire 0, Fire 0, Fire 0, Fire 0, Fire 0]
       (init_state Part001 0)"
    by (simp add: eval_defs)
  have v0: "valid Part000a dailyStandup [ConnectWorkflow, ConnectTool None, Fire 0]
       (init_state Part000a 0)"
    by (simp add: eval_defs)
  have p0: "connect (stepStatuses (exec Part000a dailyStandup [ConnectWorkflow, ConnectTool None]
        (init_state Part000a 0))) = Loading"
    "connect (stepStatuses (exec Part000a dailyStandup [ConnectWorkflow, ConnectTool None, Fire 0]
        (init_state Part000a 0))) = Pending"
    by (simp_all add: eval_defs)
  have after:
    "enabled Part001 dailyStandup (SetInput ''a'')
        (exec Part001 dailyStandup
           [ConnectWorkflow, Fire 0, Fire 0, Fire 0, Fire 0, Fire 0] (init_state Part001 0))"
    "stepStatuses (apply_event Part001 dailyStandup (SetInput ''a'')
        (exec Part001 dailyStandup
           [ConnectWorkflow, Fire 0, Fire 0, Fire 0, Fire 0, Fire 0] (init_state Part001 0))) =
       \<lparr>connect = Pending, permissions = Pending, test = Pending\<rparr>"
    "enabled Part001 dailyStandup ViewDashboard
        (exec Part001 dailyStandup
           [ConnectWorkflow, Fire 0, Fire 0, Fire 0, Fire 0, Fire 0] (init_state Part001 0))"
    "stepStatuses (apply_event Part001 dailyStandup ViewDashboard
        (exec Part001 dailyStandup
           [ConnectWorkflow, Fire 0, Fire 0, Fire 0, Fire 0, Fire 0] (init_state Part001 0))) =
       \<lparr>connect = Pending, permissions = Pending, test = Pending\<rparr>"
    "enabled Part001 dailyStandup (Fire 0)
        (exec Part001 dailyStandup
           [ConnectWorkflow, Fire 0, Fire 0, Fire 0, Fire 0, Fire 0] (init_state Part001 0))"
    "stepStatuses (apply_event Part001 dailyStandup (Fire 0)
        (exec Part001 dailyStandup
           [ConnectWorkflow, Fire 0, Fire 0, Fire 0, Fire 0, Fire 0] (init_state Part001 0))) =
       \<lparr>connect = Pending, permissions = Pending, test = Pending\<rparr>"
    unfolding done_001 by (simp_all add: eval_defs)
  have stat: "stepStatuses (exec Part001 dailyStandup
        [ConnectWorkflow, Fire 0, Fire 0, Fire 0, Fire 0, Fire 0] (init_state Part001 0)) =
       \<lparr>connect = Completed, permissions = Completed, test = Completed\<rparr>"
    unfolding done_001 by simp
  have bwd: "\<not> forward
        (stepStatuses (exec Part001 dailyStandup
           [ConnectWorkflow, Fire 0, Fire 0, Fire 0, Fire 0, Fire 0] (init_state Part001 0)))
        (stepStatuses (apply_event Part001 dailyStandup (SetInput ''a'')
           (exec Part001 dailyStandup
              [ConnectWorkflow, Fire 0, Fire 0, Fire 0, Fire 0, Fire 0] (init_state Part001 0))))"
    unfolding after(2) stat by (simp add: forward_def)
  from reset v1 stat after bwd v0 p0 show ?thesis by blast
qed

end
